theory Spec2Isabelle
  imports Complex_Main "HOL-Library.AList" "HOL-Library.Sublist"
begin

section \<open>JavaScript numbers\<close>

text \<open>
  The numeric fields of klines, candles and indicators are JavaScript numbers. They are
  modelled as \<open>num\<close>: a finite value (an exact real: rounding, overflow and the sign of
  zero are left out), the two infinities, or \<open>NaN\<close>. The operations follow IEEE-754 on
  the special values: \<open>NaN\<close> is contagious, every comparison with \<open>NaN\<close> is false,
  \<open>x / 0\<close> is an infinity of the sign of \<open>x\<close> and \<open>0 / 0\<close> is \<open>NaN\<close>.
\<close>

datatype num = Fin real | PInf | NInf | NaN

fun num_sign :: "num \<Rightarrow> int" where
  "num_sign (Fin a) = (if a > 0 then 1 else if a < 0 then -1 else 0)"
| "num_sign PInf = 1"
| "num_sign NInf = -1"
| "num_sign NaN = 0"

definition inf_of_sign :: "int \<Rightarrow> num" where
  "inf_of_sign s = (if s > 0 then PInf else if s < 0 then NInf else NaN)"

fun num_neg :: "num \<Rightarrow> num" where
  "num_neg (Fin a) = Fin (- a)"
| "num_neg PInf = NInf"
| "num_neg NInf = PInf"
| "num_neg NaN = NaN"

fun num_add :: "num \<Rightarrow> num \<Rightarrow> num" where
  "num_add (Fin a) (Fin b) = Fin (a + b)"
| "num_add NaN b = NaN"
| "num_add a NaN = NaN"
| "num_add PInf NInf = NaN"
| "num_add NInf PInf = NaN"
| "num_add PInf b = PInf"
| "num_add a PInf = PInf"
| "num_add NInf b = NInf"
| "num_add a NInf = NInf"

definition num_sub :: "num \<Rightarrow> num \<Rightarrow> num" where
  "num_sub a b = num_add a (num_neg b)"

fun num_mul :: "num \<Rightarrow> num \<Rightarrow> num" where
  "num_mul (Fin a) (Fin b) = Fin (a * b)"
| "num_mul NaN b = NaN"
| "num_mul a NaN = NaN"
| "num_mul a b = inf_of_sign (num_sign a * num_sign b)"

fun num_div :: "num \<Rightarrow> num \<Rightarrow> num" where
  "num_div (Fin a) (Fin b) = (if b = 0 then inf_of_sign (num_sign (Fin a)) else Fin (a / b))"
| "num_div NaN b = NaN"
| "num_div a NaN = NaN"
| "num_div (Fin a) b = Fin 0"
| "num_div a (Fin b) = inf_of_sign (num_sign a * (if b < 0 then -1 else 1))"
| "num_div a b = NaN"

fun num_abs :: "num \<Rightarrow> num" where
  "num_abs (Fin a) = Fin \<bar>a\<bar>"
| "num_abs NaN = NaN"
| "num_abs a = PInf"

fun num_lt :: "num \<Rightarrow> num \<Rightarrow> bool" where
  "num_lt (Fin a) (Fin b) = (a < b)"
| "num_lt NaN b = False"
| "num_lt a NaN = False"
| "num_lt a NInf = False"
| "num_lt PInf b = False"
| "num_lt a b = True"

definition num_gt :: "num \<Rightarrow> num \<Rightarrow> bool" where
  "num_gt a b = num_lt b a"

definition num_eq :: "num \<Rightarrow> num \<Rightarrow> bool" where
  \<comment> \<open>\<open>===\<close> on numbers: \<open>NaN\<close> is not equal to itself\<close>
  "num_eq a b = (a \<noteq> NaN \<and> a = b)"

definition num_max :: "num \<Rightarrow> num \<Rightarrow> num" where
  \<comment> \<open>\<open>Math.max\<close> of two numbers\<close>
  "num_max a b = (if a = NaN \<or> b = NaN then NaN else if num_lt a b then b else a)"

fun num_sqrt :: "num \<Rightarrow> num" where
  "num_sqrt (Fin a) = (if a < 0 then NaN else Fin (sqrt a))"
| "num_sqrt PInf = PInf"
| "num_sqrt a = NaN"

fun num_log :: "num \<Rightarrow> num" where
  "num_log (Fin a) = (if a < 0 then NaN else if a = 0 then NInf else Fin (ln a))"
| "num_log PInf = PInf"
| "num_log a = NaN"

section \<open>Gap detection (verify and repair)\<close>

text \<open>
  Times are millisecond epochs; the store keeps them as SQLite INTEGER and JavaScript
  reads them as numbers in the safe-integer range, so they are modelled as \<open>int\<close>.
  \<open>Math.floor(diff / step)\<close> is \<open>diff div step\<close> on integers (both round towards
  minus infinity); for \<open>step = 0\<close> and \<open>diff > 0\<close> JavaScript yields \<open>Infinity\<close>, which the
  type \<open>bars\<close> keeps apart from the finite counts.
\<close>

datatype bars = Bars int | InfBars

record gap =
  startMissing :: int
  endMissing :: int
  missingBars :: bars

definition MIN_GAP_BARS_TO_REPAIR :: int where
  "MIN_GAP_BARS_TO_REPAIR = 1"

definition floor_div_minus1 :: "int \<Rightarrow> int \<Rightarrow> bars" where
  \<comment> \<open>\<open>Math.floor(diff / step) - 1\<close>, called only with \<open>diff > step\<close>\<close>
  "floor_div_minus1 diff step = (if step = 0 then InfBars else Bars (diff div step - 1))"

fun bars_ge :: "bars \<Rightarrow> int \<Rightarrow> bool" where
  "bars_ge (Bars b) k = (k \<le> b)"
| "bars_ge InfBars k = True"

text \<open>\<open>findGaps\<close> of verify: the loop over \<open>i = 1 .. length - 1\<close> reads the pair
  \<open>(sortedTimes[i-1], sortedTimes[i])\<close>; the recursion walks the same pairs in order.\<close>

fun findGaps_verify :: "int list \<Rightarrow> int \<Rightarrow> gap list" where
  "findGaps_verify (prev # next # rest) step =
     (let diff = next - prev in
      if diff > step then
        \<lparr>startMissing = prev + step, endMissing = next - step,
         missingBars = floor_div_minus1 diff step\<rparr> # findGaps_verify (next # rest) step
      else findGaps_verify (next # rest) step)"
| "findGaps_verify _ step = []"

text \<open>\<open>findGaps\<close> of repair: the same loop with the extra test
  \<open>missingBars >= MIN_GAP_BARS_TO_REPAIR\<close>.\<close>

fun findGaps_repair :: "int list \<Rightarrow> int \<Rightarrow> gap list" where
  "findGaps_repair (prev # next # rest) step =
     (let diff = next - prev in
      if diff > step then
        (let mb = floor_div_minus1 diff step in
         if bars_ge mb MIN_GAP_BARS_TO_REPAIR then
           \<lparr>startMissing = prev + step, endMissing = next - step, missingBars = mb\<rparr>
             # findGaps_repair (next # rest) step
         else findGaps_repair (next # rest) step)
      else findGaps_repair (next # rest) step)"
| "findGaps_repair _ step = []"

text \<open>The specification's wording of gap detection: the consecutive pairs
  \<open>(t_prev, t_next)\<close> with \<open>t_next - t_prev > ms\<close>, in order, each reported with
  \<open>startMissing = t_prev + ms\<close>, \<open>endMissing = t_next - ms\<close> and
  \<open>missingBars = (t_next - t_prev) / ms - 1\<close>.\<close>

definition consecutive :: "int list \<Rightarrow> (int \<times> int) list" where
  "consecutive ts = zip ts (tl ts)"

definition gap_of_pair :: "int \<Rightarrow> int \<times> int \<Rightarrow> gap" where
  "gap_of_pair ms p =
     \<lparr>startMissing = fst p + ms, endMissing = snd p - ms,
      missingBars = Bars ((snd p - fst p) div ms - 1)\<rparr>"

definition gaps_spec :: "int list \<Rightarrow> int \<Rightarrow> gap list" where
  "gaps_spec ts ms = map (gap_of_pair ms) (filter (\<lambda>p. snd p - fst p > ms) (consecutive ts))"

definition multiples_of :: "int \<Rightarrow> int list \<Rightarrow> bool" where
  "multiples_of ms ts = list_all (\<lambda>t. t mod ms = 0) ts"

section \<open>Indicator kernels: Wilder RSI\<close>

text \<open>
  \<open>rsiWilder(close, period)\<close>. The output array starts as \<open>length close\<close> nulls
  (\<open>None\<close>). \<open>period\<close> is a natural number here; with a period that is not an
  integer the test \<open>i === period\<close> never holds and every output stays null.
\<close>

definition gain_of :: "num \<Rightarrow> num" where
  "gain_of change = (if num_gt change (Fin 0) then change else Fin 0)"

definition loss_of :: "num \<Rightarrow> num" where
  "loss_of change = (if num_lt change (Fin 0) then num_neg change else Fin 0)"

definition rsi_of :: "num \<Rightarrow> num \<Rightarrow> num" where
  \<comment> \<open>\<open>rs = avgLoss === 0 ? Infinity : avgGain / avgLoss; 100 - (100 / (1 + rs))\<close>\<close>
  "rsi_of avgGain avgLoss =
     (let rs = (if num_eq avgLoss (Fin 0) then PInf else num_div avgGain avgLoss)
      in num_sub (Fin 100) (num_div (Fin 100) (num_add (Fin 1) rs)))"

definition wilder_avg :: "num \<Rightarrow> nat \<Rightarrow> num \<Rightarrow> num" where
  \<comment> \<open>\<open>((avg * (period - 1)) + x) / period\<close>\<close>
  "wilder_avg avg period x =
     num_div (num_add (num_mul avg (Fin (real period - 1))) x) (Fin (real period))"

text \<open>The inner loop \<open>for (k = i + 1; k < close.length; k++)\<close>, entered at \<open>i = period\<close>
  (so \<open>k \<ge> 1\<close> and \<open>close[k - 1]\<close> is in range).\<close>

function rsi_smooth ::
  "num list \<Rightarrow> nat \<Rightarrow> nat \<Rightarrow> num \<Rightarrow> num \<Rightarrow> num option list \<Rightarrow> num option list" where
  "rsi_smooth close period k avgGain avgLoss out =
     (if k < length close then
        rsi_smooth close period (k + 1)
          (wilder_avg avgGain period (gain_of (num_sub (close ! k) (close ! (k - 1)))))
          (wilder_avg avgLoss period (loss_of (num_sub (close ! k) (close ! (k - 1)))))
          (out[k := Some (rsi_of
             (wilder_avg avgGain period (gain_of (num_sub (close ! k) (close ! (k - 1)))))
             (wilder_avg avgLoss period (loss_of (num_sub (close ! k) (close ! (k - 1))))))])
      else out)"
  by pat_completeness auto
termination
  by (relation "measure (\<lambda>(close, period, k, avgGain, avgLoss, out). length close - k)") auto

declare rsi_smooth.simps [simp del]

text \<open>The outer loop. \<open>prevClose\<close> is \<open>None\<close> for JavaScript's \<open>null\<close>; the branch
  \<open>i === period\<close> runs the inner loop and returns.\<close>

function rsi_loop ::
  "num list \<Rightarrow> nat \<Rightarrow> nat \<Rightarrow> num option \<Rightarrow> num \<Rightarrow> num \<Rightarrow> num option list \<Rightarrow> num option list" where
  "rsi_loop close period i prevClose gainSum lossSum out =
     (if i < length close then
        (case prevClose of
           None \<Rightarrow> rsi_loop close period (i + 1) (Some (close ! i)) gainSum lossSum out
         | Some pc \<Rightarrow>
             if i \<le> period then
               if i = period then
                 rsi_smooth close period (i + 1)
                   (num_div (num_add gainSum (gain_of (num_sub (close ! i) pc))) (Fin (real period)))
                   (num_div (num_add lossSum (loss_of (num_sub (close ! i) pc))) (Fin (real period)))
                   (out[i := Some (rsi_of
                      (num_div (num_add gainSum (gain_of (num_sub (close ! i) pc))) (Fin (real period)))
                      (num_div (num_add lossSum (loss_of (num_sub (close ! i) pc))) (Fin (real period))))])
               else
                 rsi_loop close period (i + 1) (Some (close ! i))
                   (num_add gainSum (gain_of (num_sub (close ! i) pc)))
                   (num_add lossSum (loss_of (num_sub (close ! i) pc))) out
             else rsi_loop close period (i + 1) (Some (close ! i)) gainSum lossSum out)
      else out)"
  by pat_completeness auto
termination
  by (relation "measure (\<lambda>(close, period, i, prevClose, gainSum, lossSum, out). length close - i)") auto

declare rsi_loop.simps [simp del]

definition rsiWilder :: "num list \<Rightarrow> nat \<Rightarrow> num option list" where
  "rsiWilder close period =
     rsi_loop close period 0 None (Fin 0) (Fin 0) (replicate (length close) None)"

section \<open>Rate-limited HTTP client\<close>

text \<open>
  Durations and clock readings are modelled as reals (the configuration values are
  integers; \<open>Math.random()\<close> and the products are doubles whose rounding is left out).
\<close>

record Kline =
  openTime :: int
  k_open :: num
  k_high :: num
  k_low :: num
  k_close :: num
  k_volume :: num
  closeTime :: int
  quoteAssetVolume :: num
  numberOfTrades :: int
  takerBuyBaseVolume :: num
  takerBuyQuoteVolume :: num

record RetryCfg =
  baseMs :: real
  maxMs :: real
  maxRetries :: int

definition clamp :: "real \<Rightarrow> real \<Rightarrow> real \<Rightarrow> real" where
  "clamp n mn mx = (if n < mn then mn else if n > mx then mx else n)"

subsection \<open>Token bucket\<close>

record TokenBucket =
  capacity :: real
  tokens :: real
  refillPerMs :: real
  lastRefill :: real


definition refill :: "real \<Rightarrow> TokenBucket \<Rightarrow> TokenBucket" where
  "refill now b =
     (let delta = now - lastRefill b in
      if delta \<le> 0 then b
      else b\<lparr>tokens := min (capacity b) (tokens b + delta * refillPerMs b), lastRefill := now\<rparr>)"

text \<open>One pass of the loop of \<open>take\<close> at clock reading \<open>now\<close>: refill, then either take
  a token and return (\<open>True\<close>) or go to sleep for 100 ms (\<open>False\<close>). JavaScript runs the
  pass without interruption (there is no \<open>await\<close> between the refill and the decrement).\<close>

definition take_pass :: "real \<Rightarrow> TokenBucket \<Rightarrow> bool \<times> TokenBucket" where
  "take_pass now b =
     (let b' = refill now b in
      if tokens b' \<ge> 1 then (True, b'\<lparr>tokens := tokens b' - 1\<rparr>) else (False, b'))"

text \<open>\<open>take\<close> against the clock readings of its successive passes; \<open>None\<close> when the
  readings run out before a token is available (the loop is still polling).\<close>

fun bucket_take :: "real list \<Rightarrow> TokenBucket \<Rightarrow> (real list \<times> TokenBucket) option" where
  "bucket_take [] b = None"
| "bucket_take (now # clock) b =
     (case take_pass now b of
        (True, b') \<Rightarrow> Some (clock, b')
      | (False, b') \<Rightarrow> bucket_take clock b')"




subsection \<open>Requests, errors and back-off\<close>

text \<open>
  What one HTTP request can come to: \<open>fetch\<close> rejects (network failure, or the abort of
  the per-request timeout), or a response with its status, its \<open>Retry-After\<close> header, its
  body text and the klines decoded from its JSON (\<open>None\<close> when decoding throws).
\<close>

datatype http_result =
  FetchRejected
| Response nat "string option" string "Kline list option"

datatype error =
  Error418
| Error429
| HttpError nat string  \<comment> \<open>\<open>new Error(`HTTP ${status}: ${body}`)\<close>\<close>
| FetchError
| JsonError
| IntervalError  \<comment> \<open>\<open>intervalMs must be positive\<close>, or an interval code without duration\<close>
| PeriodError  \<comment> \<open>\<open>period must be > 0\<close>\<close>
| SqliteError string

text \<open>
  The environment of the client: the outcome of the \<open>n\<close>-th HTTP request, the \<open>n\<close>-th
  value of \<open>Math.random()\<close> (in \<open>[0, 1)\<close>) and JavaScript's \<open>Number\<close> on header strings
  (\<open>None\<close> for \<open>NaN\<close>). The state counts the requests sent and the random values drawn,
  and logs the sleeps in order.
\<close>

record env =
  responses :: "nat \<Rightarrow> http_result"
  random :: "nat \<Rightarrow> real"
  Number_of :: "string \<Rightarrow> real option"

record world =
  requests :: nat
  draws :: nat
  slept :: "real list"

definition sleep :: "real \<Rightarrow> world \<Rightarrow> world" where
  "sleep wait w = w\<lparr>slept := slept w @ [wait]\<rparr>"

definition header_number :: "env \<Rightarrow> string option \<Rightarrow> real option" where
  \<comment> \<open>\<open>if (retryAfterHeader) { ra = Number(...); if (!Number.isNaN(ra)) ... }\<close>:
      \<open>null\<close> and the empty string are falsy\<close>
  "header_number e retryAfterHeader =
     (case retryAfterHeader of
        None \<Rightarrow> None
      | Some h \<Rightarrow> if h = [] then None else Number_of e h)"

definition backoffWaitMs ::
  "env \<Rightarrow> RetryCfg \<Rightarrow> nat \<Rightarrow> string option \<Rightarrow> world \<Rightarrow> real \<times> world" where
  "backoffWaitMs e retry attempt retryAfterHeader w =
     (case header_number e retryAfterHeader of
        Some ra \<Rightarrow> (clamp (ra * 1000) (baseMs retry) (maxMs retry), w)
      | None \<Rightarrow>
          (let exp = min (maxMs retry) (baseMs retry * 2 ^ attempt);
               jitter = random e (draws w) * exp * 0.5
           in (clamp (exp * 0.75 + jitter) (baseMs retry) (maxMs retry),
               w\<lparr>draws := draws w + 1\<rparr>)))"








section \<open>Storage\<close>

text \<open>
  The seven tables of the schema, each as the list of its rows in insertion order. An
  id column \<open>INTEGER PRIMARY KEY AUTOINCREMENT\<close> gets one more than the largest id of
  the table (rows of these tables are never deleted).
\<close>

record SymbolRow =
  sym_id :: int
  symbol :: string
  base_asset :: string
  quote_asset :: string

record IntervalRow =
  int_id :: int
  code :: string
  interval_ms :: int

record SeriesRow =
  ser_id :: int
  symbol_id :: int
  interval_id :: int

record CandleRow =
  c_series_id :: int
  c_open_time :: int
  c_open :: num
  c_high :: num
  c_low :: num
  c_close :: num
  c_volume :: num
  c_quote_asset_volume :: num
  c_trades :: int
  c_taker_buy_base_volume :: num
  c_taker_buy_quote_volume :: num

record IndicatorRow =
  i_series_id :: int
  i_open_time :: int
  r_ema50 :: "num option"
  r_ema200 :: "num option"
  r_rsi14 :: "num option"
  r_atr14 :: "num option"
  r_adx14 :: "num option"
  r_vol_ma20 :: "num option"
  r_macd :: "num option"
  r_macd_signal :: "num option"
  r_macd_hist :: "num option"
  r_bb_sma20 :: "num option"
  r_bb_upper :: "num option"
  r_bb_lower :: "num option"
  r_pct_return_1 :: "num option"
  r_log_return_1 :: "num option"

record SeriesStateRow =
  ss_series_id :: int
  last_open_time :: "int option"
  last_updated_at :: int

record KnownGapRow =
  kg_series_id :: int
  start_open_time :: int
  end_open_time :: int

record store =
  symbols :: "SymbolRow list"
  intervals :: "IntervalRow list"
  series :: "SeriesRow list"
  candles :: "CandleRow list"
  indicators :: "IndicatorRow list"
  series_state :: "SeriesStateRow list"
  known_gaps :: "KnownGapRow list"

definition empty_store :: store where
  "empty_store = \<lparr>symbols = [], intervals = [], series = [], candles = [], indicators = [],
     series_state = [], known_gaps = []\<rparr>"

definition next_id :: "int list \<Rightarrow> int" where
  "next_id ids = fold max ids 0 + 1"

text \<open>
  The metadata upserts. The \<open>SELECT id\<close> that follows each upsert finds the row the
  upsert has just updated or inserted, so the id is read off that row.
\<close>

definition ensureSymbol :: "string \<Rightarrow> string \<Rightarrow> string \<Rightarrow> store \<Rightarrow> int \<times> store" where
  "ensureSymbol sy base quote s =
     (case find (\<lambda>r. symbol r = sy) (symbols s) of
        Some row \<Rightarrow>
          (sym_id row,
           s\<lparr>symbols := map (\<lambda>r. if symbol r = sy
                                 then r\<lparr>base_asset := base, quote_asset := quote\<rparr> else r)
                          (symbols s)\<rparr>)
      | None \<Rightarrow>
          (let i = next_id (map sym_id (symbols s)) in
           (i, s\<lparr>symbols := symbols s
                  @ [\<lparr>sym_id = i, symbol = sy, base_asset = base, quote_asset = quote\<rparr>]\<rparr>)))"

definition ensureInterval :: "string \<Rightarrow> int \<Rightarrow> store \<Rightarrow> int \<times> store" where
  "ensureInterval cd msv s =
     (case find (\<lambda>r. code r = cd) (intervals s) of
        Some row \<Rightarrow>
          (int_id row,
           s\<lparr>intervals := map (\<lambda>r. if code r = cd then r\<lparr>interval_ms := msv\<rparr> else r)
                            (intervals s)\<rparr>)
      | None \<Rightarrow>
          (let i = next_id (map int_id (intervals s)) in
           (i, s\<lparr>intervals := intervals s @ [\<lparr>int_id = i, code = cd, interval_ms = msv\<rparr>]\<rparr>)))"

definition ensureSeries :: "int \<Rightarrow> int \<Rightarrow> store \<Rightarrow> int \<times> store" where
  "ensureSeries symbolId intervalId s =
     (case find (\<lambda>r. symbol_id r = symbolId \<and> interval_id r = intervalId) (series s) of
        Some row \<Rightarrow> (ser_id row, s)
      | None \<Rightarrow>
          (let i = next_id (map ser_id (series s)) in
           (i, s\<lparr>series := series s
                  @ [\<lparr>ser_id = i, symbol_id = symbolId, interval_id = intervalId\<rparr>]\<rparr>)))"

text \<open>\<open>INSERT ... ON CONFLICT(key) DO UPDATE SET\<close> every other column: the row with the
  key is replaced where it stands, a row with a new key is appended.\<close>

fun upsert :: "('r \<Rightarrow> 'k) \<Rightarrow> 'r \<Rightarrow> 'r list \<Rightarrow> 'r list" where
  "upsert key r [] = [r]"
| "upsert key r (x # xs) = (if key x = key r then r # xs else x # upsert key r xs)"

definition candle_key :: "CandleRow \<Rightarrow> int \<times> int" where
  "candle_key r = (c_series_id r, c_open_time r)"

definition indicator_key :: "IndicatorRow \<Rightarrow> int \<times> int" where
  "indicator_key r = (i_series_id r, i_open_time r)"

definition upsertCandles :: "CandleRow list \<Rightarrow> store \<Rightarrow> store" where
  "upsertCandles rows s = s\<lparr>candles := fold (upsert candle_key) rows (candles s)\<rparr>"

definition upsertIndicators :: "IndicatorRow list \<Rightarrow> store \<Rightarrow> store" where
  "upsertIndicators rows s = s\<lparr>indicators := fold (upsert indicator_key) rows (indicators s)\<rparr>"

fun max_list :: "int list \<Rightarrow> int option" where
  "max_list [] = None"
| "max_list (x # xs) = Some (fold max xs x)"

definition getMaxOpenTime :: "int \<Rightarrow> store \<Rightarrow> int option" where
  \<comment> \<open>\<open>SELECT MAX(open_time) FROM candles WHERE series_id = ?\<close>\<close>
  "getMaxOpenTime seriesId s =
     max_list (map c_open_time (filter (\<lambda>r. c_series_id r = seriesId) (candles s)))"

definition deleteRange :: "int \<Rightarrow> int \<Rightarrow> int \<Rightarrow> store \<Rightarrow> store" where
  "deleteRange seriesId fromInclusive toInclusive s =
     s\<lparr>indicators := filter (\<lambda>r. \<not> (i_series_id r = seriesId \<and> fromInclusive \<le> i_open_time r
                                      \<and> i_open_time r \<le> toInclusive)) (indicators s),
       candles := filter (\<lambda>r. \<not> (c_series_id r = seriesId \<and> fromInclusive \<le> c_open_time r
                                   \<and> c_open_time r \<le> toInclusive)) (candles s)\<rparr>"

subsection \<open>Transactions\<close>

text \<open>
  A connection: the contents as this connection sees them (\<open>live\<close>), and, while a
  transaction is open, the contents at its \<open>BEGIN\<close> (\<open>snapshot\<close>). \<open>BEGIN IMMEDIATE\<close> inside
  a transaction and \<open>COMMIT\<close> or \<open>ROLLBACK\<close> outside one are SQLite errors.
\<close>

record db =
  live :: store
  snapshot :: "store option"

datatype sql = BEGIN_IMMEDIATE | COMMIT | ROLLBACK

fun exec :: "sql \<Rightarrow> db \<Rightarrow> error + db" where
  "exec BEGIN_IMMEDIATE d =
     (case snapshot d of
        None \<Rightarrow> Inr (d\<lparr>snapshot := Some (live d)\<rparr>)
      | Some s \<Rightarrow> Inl (SqliteError ''cannot start a transaction within a transaction''))"
| "exec COMMIT d =
     (case snapshot d of
        None \<Rightarrow> Inl (SqliteError ''cannot commit - no transaction is active'')
      | Some s \<Rightarrow> Inr (d\<lparr>snapshot := None\<rparr>))"
| "exec ROLLBACK d =
     (case snapshot d of
        None \<Rightarrow> Inl (SqliteError ''cannot rollback - no transaction is active'')
      | Some s \<Rightarrow> Inr \<lparr>live = s, snapshot = None\<rparr>)"

text \<open>
  \<open>tx(fn, dryRun)\<close>. The callback works on the contents (the callbacks of this program
  only upsert rows) and either returns a value or throws; \<open>dryRun\<close> is \<open>None\<close> when the
  argument is left out. The \<open>catch\<close> block is \<open>tx_catch\<close>: roll back, then rethrow.
\<close>

definition tx_catch :: "error \<Rightarrow> db \<Rightarrow> (error + 'a) \<times> db" where
  "tx_catch err d =
     (case exec ROLLBACK d of
        Inl err2 \<Rightarrow> (Inl err2, d)
      | Inr d' \<Rightarrow> (Inl err, d'))"

definition tx :: "(store \<Rightarrow> (error + 'a) \<times> store) \<Rightarrow> bool option \<Rightarrow> db \<Rightarrow> (error + 'a) \<times> db" where
  "tx fn dryRun d =
     (case exec BEGIN_IMMEDIATE d of
        Inl err \<Rightarrow> (Inl err, d)
      | Inr d1 \<Rightarrow>
          (case fn (live d1) of
             (Inl err, s2) \<Rightarrow> tx_catch err (d1\<lparr>live := s2\<rparr>)
           | (Inr result, s2) \<Rightarrow>
               (case (if dryRun = Some True then exec ROLLBACK (d1\<lparr>live := s2\<rparr>)
                      else exec COMMIT (d1\<lparr>live := s2\<rparr>)) of
                  Inl err \<Rightarrow> tx_catch err (d1\<lparr>live := s2\<rparr>)
                | Inr d3 \<Rightarrow> (Inr result, d3))))"

definition open_db :: "store \<Rightarrow> db" where
  \<comment> \<open>a fresh connection on a database file with these contents\<close>
  "open_db s = \<lparr>live = s, snapshot = None\<rparr>"

section \<open>Indicator kernels\<close>

text \<open>
  Array reads as JavaScript does them in arithmetic: an index out of range reads
  \<open>undefined\<close>, which becomes \<open>NaN\<close>; a \<open>null\<close> element used as a number becomes 0. The
  loops \<open>for (i = a; i < b; i++)\<close> are folds over \<open>[a..<b]\<close> with the loop variables as
  the state. Periods are natural numbers (the callers pass 9, 12, 14, 20, 26, 50, 200).
\<close>

definition rd :: "num list \<Rightarrow> nat \<Rightarrow> num" where
  "rd xs i = (if i < length xs then xs ! i else NaN)"

definition as_number :: "num option \<Rightarrow> num" where
  "as_number v = (case v of None \<Rightarrow> Fin 0 | Some x \<Rightarrow> x)"

definition rd_prev :: "num option list \<Rightarrow> nat \<Rightarrow> num" where
  \<comment> \<open>\<open>out[i - 1] as number\<close>\<close>
  "rd_prev out i = (if i = 0 \<or> length out < i then NaN else as_number (out ! (i - 1)))"

definition elem :: "num option list \<Rightarrow> nat \<Rightarrow> num option" where
  \<comment> \<open>the element copied into a row; the kernels return arrays of the input's length\<close>
  "elem xs i = (if i < length xs then xs ! i else None)"

definition nulls :: "nat \<Rightarrow> num option list" where
  "nulls n = replicate n None"

definition ema_step ::
  "num list \<Rightarrow> nat \<Rightarrow> num \<Rightarrow> num \<times> num option list \<Rightarrow> nat \<Rightarrow> num \<times> num option list" where
  "ema_step values period k st i =
     (case st of (acc, out) \<Rightarrow>
        if i < period then
          (num_add acc (rd values i),
           if i = period - 1
           then out[i := Some (num_div (num_add acc (rd values i)) (Fin (real period)))]
           else out)
        else
          (acc, out[i := Some (num_add (num_mul (rd values i) k)
                                 (num_mul (rd_prev out i) (num_sub (Fin 1) k)))]))"

definition ema :: "num list \<Rightarrow> nat \<Rightarrow> num option \<Rightarrow> error + num option list" where
  "ema values period alphaOverride =
     (if period \<le> 0 then Inl PeriodError
      else
        (let k = (case alphaOverride of
                    Some a \<Rightarrow> a
                  | None \<Rightarrow> num_div (Fin 2) (Fin (real period + 1)))
         in Inr (snd (foldl (ema_step values period k) (Fin 0, nulls (length values))
                        [0..<length values]))))"

definition sma_step ::
  "num list \<Rightarrow> nat \<Rightarrow> num \<times> num option list \<Rightarrow> nat \<Rightarrow> num \<times> num option list" where
  "sma_step values period st i =
     (case st of (acc, out) \<Rightarrow>
        (let acc1 = num_add acc (rd values i);
             acc2 = (if i \<ge> period then num_sub acc1 (rd values (i - period)) else acc1)
         in (acc2, if int i \<ge> int period - 1
                   then out[i := Some (num_div acc2 (Fin (real period)))] else out)))"

definition sma :: "num list \<Rightarrow> nat \<Rightarrow> num option list" where
  "sma values period =
     snd (foldl (sma_step values period) (Fin 0, nulls (length values)) [0..<length values])"

definition stddev_at :: "num list \<Rightarrow> nat \<Rightarrow> num \<Rightarrow> nat \<Rightarrow> num" where
  \<comment> \<open>the inner loop over \<open>j = i - period + 1 .. i\<close> and the square root\<close>
  "stddev_at values period m i =
     num_sqrt (num_div
       (foldl (\<lambda>s j. num_add s (num_mul (num_sub (rd values j) m) (num_sub (rd values j) m)))
          (Fin 0) [i + 1 - period..<i + 1])
       (Fin (real period)))"

definition stddev_step ::
  "num list \<Rightarrow> nat \<Rightarrow> num option list \<Rightarrow> num option list \<Rightarrow> nat \<Rightarrow> num option list" where
  "stddev_step values period ma out i =
     (if i < length ma then
        (case ma ! i of
           None \<Rightarrow> out
         | Some m \<Rightarrow> out[i := Some (stddev_at values period m i)])
      else out[i := Some (stddev_at values period NaN i)])"

definition stddev :: "num list \<Rightarrow> nat \<Rightarrow> num option list \<Rightarrow> num option list" where
  "stddev values period ma =
     foldl (stddev_step values period ma) (nulls (length values)) [period - 1..<length values]"

definition true_range :: "num list \<Rightarrow> num list \<Rightarrow> num list \<Rightarrow> nat \<Rightarrow> num" where
  \<comment> \<open>\<open>Math.max(m1, m2, m3)\<close> for \<open>i \<ge> 1\<close>\<close>
  "true_range high low close i =
     num_max (num_max (num_sub (rd high i) (rd low i))
                      (num_abs (num_sub (rd high i) (rd close (i - 1)))))
             (num_abs (num_sub (rd low i) (rd close (i - 1))))"

definition atr_step ::
  "num list \<Rightarrow> nat \<Rightarrow> num \<times> num option list \<Rightarrow> nat \<Rightarrow> num \<times> num option list" where
  "atr_step tr period st i =
     (case st of (acc, out) \<Rightarrow>
        if i < period then
          (num_add acc (rd tr i),
           if i = period - 1
           then out[i := Some (num_div (num_add acc (rd tr i)) (Fin (real period)))]
           else out)
        else
          (acc, out[i := Some (num_div
                   (num_add (num_mul (rd_prev out i) (Fin (real period - 1))) (rd tr i))
                   (Fin (real period)))]))"

definition atrWilder :: "num list \<Rightarrow> num list \<Rightarrow> num list \<Rightarrow> nat \<Rightarrow> num option list" where
  "atrWilder high low close period =
     (let tr = map (\<lambda>i. if i = 0 then num_sub (rd high i) (rd low i)
                         else true_range high low close i) [0..<length close]
      in snd (foldl (atr_step tr period) (Fin 0, nulls (length close)) [0..<length tr]))"

subsection \<open>Wilder ADX\<close>

definition plus_dm :: "num list \<Rightarrow> num list \<Rightarrow> nat \<Rightarrow> num" where
  "plus_dm high low i =
     (let upMove = num_sub (rd high i) (rd high (i - 1));
          downMove = num_sub (rd low (i - 1)) (rd low i)
      in if num_gt upMove downMove \<and> num_gt upMove (Fin 0) then upMove else Fin 0)"

definition minus_dm :: "num list \<Rightarrow> num list \<Rightarrow> nat \<Rightarrow> num" where
  "minus_dm high low i =
     (let upMove = num_sub (rd high i) (rd high (i - 1));
          downMove = num_sub (rd low (i - 1)) (rd low i)
      in if num_gt downMove upMove \<and> num_gt downMove (Fin 0) then downMove else Fin 0)"

definition dx_of :: "num \<Rightarrow> num \<Rightarrow> num \<Rightarrow> num" where
  "dx_of tr14 plusDM14 minusDM14 =
     (let plusDI = num_mul (num_div plusDM14 tr14) (Fin 100);
          minusDI = num_mul (num_div minusDM14 tr14) (Fin 100)
      in num_mul (num_div (num_abs (num_sub plusDI minusDI)) (num_add plusDI minusDI)) (Fin 100))"

definition wilder_sum :: "num \<Rightarrow> nat \<Rightarrow> num \<Rightarrow> num" where
  \<comment> \<open>\<open>x - (x / period) + x_i\<close>\<close>
  "wilder_sum x period xi = num_add (num_sub x (num_div x (Fin (real period)))) xi"

definition dx_step ::
  "num list \<Rightarrow> num list \<Rightarrow> num list \<Rightarrow> nat \<Rightarrow> (num \<times> num \<times> num) \<times> num option list \<Rightarrow> nat
     \<Rightarrow> (num \<times> num \<times> num) \<times> num option list" where
  "dx_step tr plusDM minusDM period st i =
     (case st of ((tr14, plusDM14, minusDM14), dxArr) \<Rightarrow>
        (let tr14' = wilder_sum tr14 period (rd tr i);
             plusDM14' = wilder_sum plusDM14 period (rd plusDM i);
             minusDM14' = wilder_sum minusDM14 period (rd minusDM i)
         in ((tr14', plusDM14', minusDM14'),
             dxArr[i := Some (dx_of tr14' plusDM14' minusDM14')])))"

text \<open>The loop that seeds the ADX with the mean of the first \<open>period\<close> values of DX and
  then breaks.\<close>

fun adx_seed ::
  "num option list \<Rightarrow> nat \<Rightarrow> nat list \<Rightarrow> num \<Rightarrow> nat \<Rightarrow> num option list \<Rightarrow> num option list" where
  "adx_seed dxArr period [] acc count adx = adx"
| "adx_seed dxArr period (i # rest) acc count adx =
     (case elem dxArr i of
        None \<Rightarrow> adx_seed dxArr period rest acc count adx
      | Some dxv \<Rightarrow>
          if count + 1 = period
          then adx[i := Some (num_div (num_add acc dxv) (Fin (real period)))]
          else adx_seed dxArr period rest (num_add acc dxv) (count + 1) adx)"

definition adx_smooth_step ::
  "num option list \<Rightarrow> nat \<Rightarrow> num option list \<Rightarrow> nat \<Rightarrow> num option list" where
  "adx_smooth_step dxArr period adx i =
     (case elem dxArr i of
        None \<Rightarrow> adx
      | Some dxv \<Rightarrow>
          adx[i := Some (num_div (num_add (num_mul (rd_prev adx i) (Fin (real period - 1))) dxv)
                           (Fin (real period)))])"

definition first_non_null :: "num option list \<Rightarrow> int" where
  \<comment> \<open>\<open>findIndex(v => v !== null)\<close>: \<open>-1\<close> when there is none\<close>
  "first_non_null xs =
     (if list_all (\<lambda>v. v = None) xs then -1 else int (length (takeWhile (\<lambda>v. v = None) xs)))"

definition adxWilder :: "num list \<Rightarrow> num list \<Rightarrow> num list \<Rightarrow> nat \<Rightarrow> num option list" where
  "adxWilder high low close period =
     (let len = length close;
          tr = map (\<lambda>i. if i = 0 then Fin 0 else true_range high low close i) [0..<len];
          plusDM = map (\<lambda>i. if i = 0 then Fin 0 else plus_dm high low i) [0..<len];
          minusDM = map (\<lambda>i. if i = 0 then Fin 0 else minus_dm high low i) [0..<len];
          tr14 = foldl (\<lambda>a i. num_add a (rd tr i)) (Fin 0) [1..<period + 1];
          plusDM14 = foldl (\<lambda>a i. num_add a (rd plusDM i)) (Fin 0) [1..<period + 1];
          minusDM14 = foldl (\<lambda>a i. num_add a (rd minusDM i)) (Fin 0) [1..<period + 1];
          dxArr0 = (if period < len
                    then (nulls len)[period := Some (dx_of tr14 plusDM14 minusDM14)]
                    else nulls len);
          dxArr = snd (foldl (dx_step tr plusDM minusDM period)
                         ((tr14, plusDM14, minusDM14), dxArr0) [period + 1..<len]);
          adx0 = adx_seed dxArr period [0..<len] (Fin 0) 0 (nulls len)
      in foldl (adx_smooth_step dxArr period) adx0 [nat (first_non_null adx0 + 1)..<len])"

subsection \<open>MACD and the indicator suite\<close>

definition macd ::
  "num list \<Rightarrow> nat \<Rightarrow> nat \<Rightarrow> nat
     \<Rightarrow> error + (num option list \<times> num option list \<times> num option list)" where
  "macd close fast slow signal =
     (case ema close fast None of
        Inl err \<Rightarrow> Inl err
      | Inr emaFast \<Rightarrow>
     (case ema close slow None of
        Inl err \<Rightarrow> Inl err
      | Inr emaSlow \<Rightarrow>
     (let macdLine = map (\<lambda>i. case (elem emaFast i, elem emaSlow i) of
                                  (Some a, Some b) \<Rightarrow> Some (num_sub a b)
                                | _ \<Rightarrow> None) [0..<length close]
      in case ema (map as_number macdLine) signal None of
           Inl err \<Rightarrow> Inl err
         | Inr signalLine \<Rightarrow>
             Inr (macdLine, signalLine,
                  map (\<lambda>i. case (elem macdLine i, elem signalLine i) of
                              (Some a, Some b) \<Rightarrow> Some (num_sub a b)
                            | _ \<Rightarrow> None) [0..<length close]))))"

record OHLCV =
  ohlcv_time :: int
  ohlcv_open :: num
  ohlcv_high :: num
  ohlcv_low :: num
  ohlcv_close :: num
  ohlcv_volume :: num

record IndicatorsOut =
  o_ema50 :: "num option list"
  o_ema200 :: "num option list"
  o_rsi14 :: "num option list"
  o_atr14 :: "num option list"
  o_adx14 :: "num option list"
  o_vol_ma20 :: "num option list"
  o_macd :: "num option list"
  o_macd_signal :: "num option list"
  o_macd_hist :: "num option list"
  o_bb_sma20 :: "num option list"
  o_bb_upper :: "num option list"
  o_bb_lower :: "num option list"
  o_pct_return_1 :: "num option list"
  o_log_return_1 :: "num option list"

definition pct_return :: "num list \<Rightarrow> nat \<Rightarrow> num option" where
  "pct_return close i =
     (if i = 0 then None
      else if num_eq (rd close (i - 1)) (Fin 0) then None
      else Some (num_sub (num_div (rd close i) (rd close (i - 1))) (Fin 1)))"

definition log_return :: "num list \<Rightarrow> nat \<Rightarrow> num option" where
  "log_return close i =
     (if i = 0 then None
      else if num_eq (rd close (i - 1)) (Fin 0) then None
      else Some (num_log (num_div (rd close i) (rd close (i - 1)))))"

definition computeIndicators :: "OHLCV list \<Rightarrow> error + IndicatorsOut" where
  "computeIndicators rows =
     (let close = map ohlcv_close rows; high = map ohlcv_high rows;
          low = map ohlcv_low rows; volume = map ohlcv_volume rows
      in
      (case ema close 50 None of Inl err \<Rightarrow> Inl err | Inr ema50 \<Rightarrow>
      (case ema close 200 None of Inl err \<Rightarrow> Inl err | Inr ema200 \<Rightarrow>
      (case macd close 12 26 9 of Inl err \<Rightarrow> Inl err | Inr (macdLine, signalLine, hist) \<Rightarrow>
        (let bb_mid = sma close 20; bb_std = stddev close 20 bb_mid in
         Inr \<lparr>o_ema50 = ema50, o_ema200 = ema200,
              o_rsi14 = rsiWilder close 14,
              o_atr14 = atrWilder high low close 14,
              o_adx14 = adxWilder high low close 14,
              o_vol_ma20 = sma volume 20,
              o_macd = macdLine, o_macd_signal = signalLine, o_macd_hist = hist,
              o_bb_sma20 = bb_mid,
              o_bb_upper = map (\<lambda>i. (case (elem bb_mid i, elem bb_std i) of
                                       (Some m, Some sd) \<Rightarrow> Some (num_add m (num_mul (Fin 2) sd))
                                     | _ \<Rightarrow> None)) [0..<length close],
              o_bb_lower = map (\<lambda>i. (case (elem bb_mid i, elem bb_std i) of
                                       (Some m, Some sd) \<Rightarrow> Some (num_sub m (num_mul (Fin 2) sd))
                                     | _ \<Rightarrow> None)) [0..<length close],
              o_pct_return_1 = map (pct_return close) [0..<length close],
              o_log_return_1 = map (log_return close) [0..<length close]\<rparr>)))))"

section \<open>Ingest engine\<close>

definition MAX_API_LIMIT :: int where
  "MAX_API_LIMIT = 1000"

definition OVERLAP_BARS :: int where
  "OVERLAP_BARS = 600"

definition INTERVAL_MS :: "string \<Rightarrow> int option" where
  "INTERVAL_MS = map_of
     [(''1m'', 60000), (''3m'', 180000), (''5m'', 300000), (''15m'', 900000),
      (''30m'', 1800000), (''1h'', 3600000), (''2h'', 7200000), (''4h'', 14400000),
      (''6h'', 21600000), (''8h'', 28800000), (''12h'', 43200000), (''1d'', 86400000),
      (''3d'', 259200000), (''1w'', 604800000)]"

definition floorToInterval :: "int \<Rightarrow> int \<Rightarrow> error + int" where
  "floorToInterval t intervalMs =
     (if intervalMs \<le> 0 then Inl IntervalError else Inr ((t div intervalMs) * intervalMs))"

definition strip_USDT :: "string \<Rightarrow> string" where
  \<comment> \<open>\<open>symbol.replace(/USDT$/, "")\<close>\<close>
  "strip_USDT sy = (if suffix ''USDT'' sy then List.take (length sy - 4) sy else sy)"

definition mapToRows :: "int \<Rightarrow> Kline list \<Rightarrow> CandleRow list" where
  "mapToRows seriesId kl =
     map (\<lambda>k. \<lparr>c_series_id = seriesId, c_open_time = openTime k, c_open = k_open k,
               c_high = k_high k, c_low = k_low k, c_close = k_close k, c_volume = k_volume k,
               c_quote_asset_volume = quoteAssetVolume k, c_trades = numberOfTrades k,
               c_taker_buy_base_volume = takerBuyBaseVolume k,
               c_taker_buy_quote_volume = takerBuyQuoteVolume k\<rparr>) kl"

definition mapToOHLCV :: "Kline list \<Rightarrow> OHLCV list" where
  "mapToOHLCV kl =
     map (\<lambda>k. \<lparr>ohlcv_time = openTime k, ohlcv_open = k_open k, ohlcv_high = k_high k,
               ohlcv_low = k_low k, ohlcv_close = k_close k, ohlcv_volume = k_volume k\<rparr>) kl"

definition indicator_row :: "int \<Rightarrow> OHLCV list \<Rightarrow> IndicatorsOut \<Rightarrow> nat \<Rightarrow> IndicatorRow" where
  \<comment> \<open>the indicator row built for index \<open>i\<close> of a chunk (\<open>i\<close> is in range at every use)\<close>
  "indicator_row seriesId ohlcv ind i =
     \<lparr>i_series_id = seriesId, i_open_time = ohlcv_time (ohlcv ! i),
      r_ema50 = elem (o_ema50 ind) i, r_ema200 = elem (o_ema200 ind) i,
      r_rsi14 = elem (o_rsi14 ind) i, r_atr14 = elem (o_atr14 ind) i,
      r_adx14 = elem (o_adx14 ind) i, r_vol_ma20 = elem (o_vol_ma20 ind) i,
      r_macd = elem (o_macd ind) i, r_macd_signal = elem (o_macd_signal ind) i,
      r_macd_hist = elem (o_macd_hist ind) i, r_bb_sma20 = elem (o_bb_sma20 ind) i,
      r_bb_upper = elem (o_bb_upper ind) i, r_bb_lower = elem (o_bb_lower ind) i,
      r_pct_return_1 = elem (o_pct_return_1 ind) i,
      r_log_return_1 = elem (o_log_return_1 ind) i\<rparr>"

text \<open>
  \<open>client.getKlines(symbol, interval, startTime, endTime, limit)\<close> as the ingest loops see
  it: the result of the \<open>n\<close>-th call of a run, klines or a thrown error. A run numbers its
  calls from 0.
\<close>

type_synonym fetcher = "nat \<Rightarrow> string \<Rightarrow> string \<Rightarrow> int \<Rightarrow> int \<Rightarrow> int \<Rightarrow> error + Kline list"

text \<open>What stays fixed during the loop of one run.\<close>

record run =
  r_symbol :: string
  r_interval :: string
  r_seriesId :: int
  r_intervalMs :: int
  r_start :: int
  r_end :: int  \<comment> \<open>\<open>endClosed\<close> in bootstrap, \<open>nowClosed\<close> in update\<close>
  r_dryRun :: bool

text \<open>
  One pass of the body of the \<open>while\<close> loop of \<open>bootstrapSeries\<close>; the body of the loop
  of \<open>updateSeries\<close> is the same text. It returns the new cursor, or the error thrown.
\<close>

definition write_indices :: "CandleRow list \<Rightarrow> int \<Rightarrow> nat list" where
  "write_indices rowsAll cursor =
     filter (\<lambda>i. c_open_time (rowsAll ! i) \<ge> cursor) [0..<length rowsAll]"

definition ingest_chunk :: "fetcher \<Rightarrow> run \<Rightarrow> nat \<Rightarrow> int \<Rightarrow> db \<Rightarrow> (error + int) \<times> db" where
  "ingest_chunk gk r n cursor d =
     (let fetchEnd = min (r_end r) (cursor + r_intervalMs r * (MAX_API_LIMIT - 1));
          overlapStart = max (r_start r) (cursor - OVERLAP_BARS * r_intervalMs r)
      in
      case gk n (r_symbol r) (r_interval r) overlapStart fetchEnd MAX_API_LIMIT of
        Inl err \<Rightarrow> (Inl err, d)
      | Inr klines \<Rightarrow>
          if length klines = 0 then (Inr (cursor + r_intervalMs r), d)
          else
            (case computeIndicators (mapToOHLCV klines) of
               Inl err \<Rightarrow> (Inl err, d)
             | Inr indAll \<Rightarrow>
                 (let rowsAll = mapToRows (r_seriesId r) klines;
                      writeIndices = write_indices rowsAll cursor;
                      candleWrite = map (\<lambda>i. rowsAll ! i) writeIndices;
                      indicWrite = map (indicator_row (r_seriesId r) (mapToOHLCV klines) indAll)
                                       writeIndices
                  in
                  case tx (\<lambda>s. (Inr (),
                                 if length candleWrite > 0
                                 then upsertIndicators indicWrite (upsertCandles candleWrite s)
                                 else s))
                          (Some (r_dryRun r)) d of
                    (Inl err, d') \<Rightarrow> (Inl err, d')
                  | (Inr u, d') \<Rightarrow>
                      (Inr (if length candleWrite > 0
                            then cursor + int (length candleWrite) * r_intervalMs r
                            else cursor + r_intervalMs r), d'))))"

text \<open>The \<open>while (cursor <= end)\<close> loop, with fuel: \<open>None\<close> when the fuel runs out before
  the loop has ended.\<close>

fun ingest_loop :: "nat \<Rightarrow> fetcher \<Rightarrow> run \<Rightarrow> nat \<Rightarrow> int \<Rightarrow> db \<Rightarrow> ((error + unit) \<times> db) option" where
  "ingest_loop 0 gk r n cursor d = None"
| "ingest_loop (Suc fuel) gk r n cursor d =
     (if cursor \<le> r_end r then
        (case ingest_chunk gk r n cursor d of
           (Inl err, d') \<Rightarrow> Some (Inl err, d')
         | (Inr cursor', d') \<Rightarrow> ingest_loop fuel gk r (n + 1) cursor' d')
      else Some (Inr (), d))"

text \<open>
  The three metadata upserts that open \<open>bootstrapSeries\<close> and \<open>updateSeries\<close>, each
  committed on its own. An interval code outside \<open>INTERVAL_MS\<close> has the duration
  \<open>undefined\<close>, which cannot be bound to the statement of \<open>ensureInterval\<close>: the call
  throws after the symbol has been written.
\<close>

definition ensure_meta :: "string \<Rightarrow> string \<Rightarrow> store \<Rightarrow> (error + int \<times> int) \<times> store" where
  "ensure_meta sy iv s =
     (case ensureSymbol sy (strip_USDT sy) ''USDT'' s of
        (symbolId, s1) \<Rightarrow>
          (case INTERVAL_MS iv of
             None \<Rightarrow> (Inl IntervalError, s1)
           | Some intervalMs \<Rightarrow>
               (case ensureInterval iv intervalMs s1 of
                  (intervalId, s2) \<Rightarrow>
                    (case ensureSeries symbolId intervalId s2 of
                       (seriesId, s3) \<Rightarrow> (Inr (seriesId, intervalMs), s3)))))"

text \<open>
  \<open>bootstrapSeries\<close>, on the contents of the database file. \<open>now\<close> is the reading of
  \<open>Date.now()\<close> and \<open>startDate\<close> the value of \<open>Date.parse(cfg.bootstrap.startDate)\<close>,
  \<open>None\<close> for \<open>NaN\<close> (then the loop condition is false at once). The result is the error
  thrown, if any, and the contents left in the file.
\<close>

definition bootstrapSeries ::
  "nat \<Rightarrow> fetcher \<Rightarrow> int \<Rightarrow> int option \<Rightarrow> string \<Rightarrow> string \<Rightarrow> bool \<Rightarrow> store
     \<Rightarrow> ((error + unit) \<times> store) option" where
  "bootstrapSeries fuel gk now startDate sy iv dryRun s =
     (case ensure_meta sy iv s of
        (Inl err, s1) \<Rightarrow> Some (Inl err, s1)
      | (Inr (seriesId, intervalMs), s1) \<Rightarrow>
          (case floorToInterval now intervalMs of
             Inl err \<Rightarrow> Some (Inl err, s1)
           | Inr fl \<Rightarrow>
               (case startDate of
                  None \<Rightarrow> Some (Inr (), s1)
                | Some start \<Rightarrow>
                    map_option (\<lambda>(res, d). (res, live d))
                      (ingest_loop fuel gk
                         \<lparr>r_symbol = sy, r_interval = iv, r_seriesId = seriesId,
                          r_intervalMs = intervalMs, r_start = start, r_end = fl - 1,
                          r_dryRun = dryRun\<rparr>
                         0 start (open_db s1)))))"

definition update_start :: "int \<Rightarrow> int \<Rightarrow> int option \<Rightarrow> int" where
  \<comment> \<open>\<open>maxOpen === null ? startDate : Math.max(startDate, maxOpen - OVERLAP_BARS * intervalMs)\<close>\<close>
  "update_start startDate intervalMs maxOpen =
     (case maxOpen of
        None \<Rightarrow> startDate
      | Some mo \<Rightarrow> max startDate (mo - OVERLAP_BARS * intervalMs))"

definition updateSeries ::
  "nat \<Rightarrow> fetcher \<Rightarrow> int \<Rightarrow> int option \<Rightarrow> string \<Rightarrow> string \<Rightarrow> bool \<Rightarrow> store
     \<Rightarrow> ((error + unit) \<times> store) option" where
  "updateSeries fuel gk now startDate sy iv dryRun s =
     (case ensure_meta sy iv s of
        (Inl err, s1) \<Rightarrow> Some (Inl err, s1)
      | (Inr (seriesId, intervalMs), s1) \<Rightarrow>
          (case floorToInterval now intervalMs of
             Inl err \<Rightarrow> Some (Inl err, s1)
           | Inr fl \<Rightarrow>
               (case startDate of
                  None \<Rightarrow> Some (Inr (), s1)
                | Some sd \<Rightarrow>
                    (let start = update_start sd intervalMs (getMaxOpenTime seriesId s1) in
                     map_option (\<lambda>(res, d). (res, live d))
                       (ingest_loop fuel gk
                          \<lparr>r_symbol = sy, r_interval = iv, r_seriesId = seriesId,
                           r_intervalMs = intervalMs, r_start = start, r_end = fl - 1,
                           r_dryRun = dryRun\<rparr>
                          0 start (open_db s1))))))"

section \<open>Ingest engine: derived forms\<close>

text \<open>
  The advance of the cursor as the specification words it: by \<open>ms\<close> when the fetch is
  empty or no fetched bar is at or after the cursor, and by the number of such bars times
  \<open>ms\<close> otherwise.
\<close>

definition cursor_advance :: "int \<Rightarrow> int \<Rightarrow> Kline list \<Rightarrow> int" where
  "cursor_advance cursor intervalMs klines =
     (let w = length (filter (\<lambda>k. openTime k \<ge> cursor) klines)
      in if w = 0 then cursor + intervalMs else cursor + int w * intervalMs)"

text \<open>The rows one chunk writes, and the contents after its transaction has committed.\<close>

definition chunk_candles :: "int \<Rightarrow> int \<Rightarrow> Kline list \<Rightarrow> CandleRow list" where
  "chunk_candles seriesId cursor klines =
     map (\<lambda>i. mapToRows seriesId klines ! i) (write_indices (mapToRows seriesId klines) cursor)"

definition chunk_indicators :: "int \<Rightarrow> int \<Rightarrow> Kline list \<Rightarrow> IndicatorRow list" where
  "chunk_indicators seriesId cursor klines =
     (case computeIndicators (mapToOHLCV klines) of
        Inl err \<Rightarrow> []
      | Inr indAll \<Rightarrow>
          map (indicator_row seriesId (mapToOHLCV klines) indAll)
            (write_indices (mapToRows seriesId klines) cursor))"

definition chunk_write :: "int \<Rightarrow> int \<times> Kline list \<Rightarrow> store \<Rightarrow> store" where
  "chunk_write seriesId ck s =
     (case ck of (cursor, klines) \<Rightarrow>
        if length (chunk_candles seriesId cursor klines) > 0
        then upsertIndicators (chunk_indicators seriesId cursor klines)
               (upsertCandles (chunk_candles seriesId cursor klines) s)
        else s)"

text \<open>The chunks a run of the loop goes through (cursor and fetched klines of every pass
  that reached its transaction), and how the run ended.\<close>

fun loop_trace ::
  "nat \<Rightarrow> fetcher \<Rightarrow> run \<Rightarrow> nat \<Rightarrow> int \<Rightarrow> ((error + unit) \<times> (int \<times> Kline list) list) option" where
  "loop_trace 0 gk r n cursor = None"
| "loop_trace (Suc fuel) gk r n cursor =
     (if cursor \<le> r_end r then
        (case gk n (r_symbol r) (r_interval r)
                (max (r_start r) (cursor - OVERLAP_BARS * r_intervalMs r))
                (min (r_end r) (cursor + r_intervalMs r * (MAX_API_LIMIT - 1))) MAX_API_LIMIT of
           Inl err \<Rightarrow> Some (Inl err, [])
         | Inr klines \<Rightarrow>
             map_option (\<lambda>(res, tr). (res, (cursor, klines) # tr))
               (loop_trace fuel gk r (n + 1) (cursor_advance cursor (r_intervalMs r) klines)))
      else Some (Inr (), []))"

text \<open>The cursor at which \<open>updateSeries\<close> starts on given contents (\<open>None\<close> when the
  interval code has no duration).\<close>

definition update_begin :: "int \<Rightarrow> string \<Rightarrow> string \<Rightarrow> store \<Rightarrow> int option" where
  "update_begin startDate sy iv s =
     (case ensure_meta sy iv s of
        (Inl err, s1) \<Rightarrow> None
      | (Inr (seriesId, intervalMs), s1) \<Rightarrow>
          Some (update_start startDate intervalMs (getMaxOpenTime seriesId s1)))"

text \<open>The primary keys of candles and indicators are unique.\<close>

definition keys_distinct :: "store \<Rightarrow> bool" where
  "keys_distinct s =
     (distinct (map candle_key (candles s)) \<and> distinct (map indicator_key (indicators s)))"

section \<open>Test fixtures\<close>

text \<open>
  A bar with all prices equal to \<open>c\<close>, and an exchange that holds a fixed list of bars and
  answers every request with the first \<open>limit\<close> bars whose open time lies in
  \<open>[startTime, endTime]\<close>. They stand for the remote API in the concrete runs below.
\<close>

definition bar :: "int \<Rightarrow> real \<Rightarrow> Kline" where
  "bar t c =
     \<lparr>openTime = t, k_open = Fin c, k_high = Fin c, k_low = Fin c, k_close = Fin c,
      k_volume = Fin 1, closeTime = t + 59999, quoteAssetVolume = Fin c, numberOfTrades = 1,
      takerBuyBaseVolume = Fin 0, takerBuyQuoteVolume = Fin 0\<rparr>"

definition exchange :: "Kline list \<Rightarrow> fetcher" where
  "exchange bars n sy iv startTime endTime limit =
     Inr (List.take (nat limit)
            (filter (\<lambda>k. startTime \<le> openTime k \<and> openTime k \<le> endTime) bars))"

section \<open>Gap detection: proofs\<close>

lemma consecutive_Cons2:
  "consecutive (a # b # rest) = (a, b) # consecutive (b # rest)"
  by (simp add: consecutive_def)

lemma consecutive_short: "consecutive [] = []" "consecutive [a] = []"
  by (simp_all add: consecutive_def)

lemma findGaps_verify_spec:
  "ms \<noteq> 0 \<Longrightarrow> findGaps_verify ts ms = gaps_spec ts ms"
proof (induction ts ms rule: findGaps_verify.induct)
  case (1 prev nxt rest step)
  then show ?case
    by (simp add: gaps_spec_def consecutive_Cons2 gap_of_pair_def floor_div_minus1_def Let_def)
qed (simp_all add: gaps_spec_def consecutive_short)

lemma multiple_gap_at_least_two:
  fixes ms :: int
  assumes "0 < ms" "a mod ms = 0" "b mod ms = 0" "b - a > ms"
  shows "1 \<le> (b - a) div ms - 1"
proof -
  from assms(2,3) have "ms dvd (b - a)" by (simp add: dvd_diff mod_eq_0_iff_dvd)
  then obtain k where k: "b - a = ms * k" by (auto simp: dvd_def)
  with assms(1,4) have "ms * 1 < ms * k" by simp
  with assms(1) have "1 < k" by (simp only: mult_less_cancel_left_pos)
  moreover from k assms(1) have "(b - a) div ms = k" by simp
  ultimately show ?thesis by simp
qed

lemma findGaps_repair_verify:
  "0 < ms \<Longrightarrow> multiples_of ms ts \<Longrightarrow> findGaps_repair ts ms = findGaps_verify ts ms"
proof (induction ts ms rule: findGaps_repair.induct)
  case (1 prev nxt rest step)
  then have m: "prev mod step = 0" "nxt mod step = 0" and r: "multiples_of step (nxt # rest)"
    by (simp_all add: multiples_of_def)
  show ?case
  proof (cases "nxt - prev > step")
    case True
    with 1(4) m have "1 \<le> (nxt - prev) div step - 1"
      by (intro multiple_gap_at_least_two) auto
    with True 1 r show ?thesis
      by (simp add: floor_div_minus1_def MIN_GAP_BARS_TO_REPAIR_def Let_def)
  next
    case False
    with 1 r show ?thesis by (simp add: Let_def)
  qed
qed simp_all

lemma consecutive_multiples:
  "multiples_of ms ts \<Longrightarrow> list_all (\<lambda>p. ((snd p - fst p) div ms) * ms = snd p - fst p) (consecutive ts)"
proof (induction ts rule: induct_list012)
  case (3 a b rest)
  then have "a mod ms = 0" "b mod ms = 0" by (simp_all add: multiples_of_def)
  then have "ms dvd (b - a)" by (simp add: dvd_diff mod_eq_0_iff_dvd)
  then have "((b - a) div ms) * ms = b - a" by simp
  with 3 show ?case by (simp add: consecutive_Cons2 multiples_of_def)
qed (simp_all add: consecutive_short)

text \<open>
  C8. For a strictly increasing list of stored open times, all multiples of the (positive)
  interval \<open>ms\<close>, both gap detectors report exactly the consecutive pairs that are more
  than \<open>ms\<close> apart, in order, with \<open>startMissing = t_prev + ms\<close>,
  \<open>endMissing = t_next - ms\<close> and \<open>missingBars = (t_next - t_prev) / ms - 1\<close>; the
  division is exact on such a list.
\<close>

theorem findGaps_reports_spec_gaps:
  assumes "0 < ms" and "sorted_wrt (<) ts" and "multiples_of ms ts"
  shows "findGaps_verify ts ms = gaps_spec ts ms
       \<and> findGaps_repair ts ms = gaps_spec ts ms
       \<and> list_all (\<lambda>p. ((snd p - fst p) div ms) * ms = snd p - fst p) (consecutive ts)"
proof -
  from assms(1) have v: "findGaps_verify ts ms = gaps_spec ts ms"
    by (intro findGaps_verify_spec) simp
  from assms(1,3) have "findGaps_repair ts ms = findGaps_verify ts ms"
    by (rule findGaps_repair_verify)
  with v consecutive_multiples[OF assms(3)] show ?thesis by simp
qed

theorem findGaps_reports_spec_gaps_witness:
  "findGaps_verify [0, 60000, 240000, 300000] 60000
     = [\<lparr>startMissing = 120000, endMissing = 180000, missingBars = Bars 2\<rparr>]
   \<and> findGaps_repair [0, 60000, 240000, 300000] 60000
     = [\<lparr>startMissing = 120000, endMissing = 180000, missingBars = Bars 2\<rparr>]"
proof -
  have h1: "(0::int) < 60000" by simp
  have h2: "sorted_wrt (<) [0, 60000, 240000, 300000::int]" by simp
  have h3: "multiples_of 60000 [0, 60000, 240000, 300000]" by (simp add: multiples_of_def)
  note t = findGaps_reports_spec_gaps[OF h1 h2 h3]
  have g: "gaps_spec [0, 60000, 240000, 300000] 60000
     = [\<lparr>startMissing = 120000, endMissing = 180000, missingBars = Bars 2\<rparr>]"
    by (simp add: gaps_spec_def consecutive_def gap_of_pair_def)
  from t[THEN conjunct1] t[THEN conjunct2, THEN conjunct1] g show ?thesis
    by (simp only:)
qed

section \<open>Wilder RSI: warm-up prefix\<close>

lemma rsi_smooth_length [simp]:
  "length (rsi_smooth close period k ag al out) = length out"
  by (induction close period k ag al out rule: rsi_smooth.induct)
     (subst rsi_smooth.simps, simp)

lemma rsi_smooth_below:
  "j < k \<Longrightarrow> rsi_smooth close period k ag al out ! j = out ! j"
  by (induction close period k ag al out rule: rsi_smooth.induct)
     (subst rsi_smooth.simps, simp)

lemma rsi_loop_length [simp]:
  "length (rsi_loop close period i pc gs ls out) = length out"
  by (induction close period i pc gs ls out rule: rsi_loop.induct)
     (subst rsi_loop.simps, simp split: option.splits)

lemma rsi_loop_below:
  "j < period \<Longrightarrow> rsi_loop close period i pc gs ls out ! j = out ! j"
  by (induction close period i pc gs ls out rule: rsi_loop.induct)
     (subst rsi_loop.simps, simp split: option.splits add: rsi_smooth_below)

lemma rsi_loop_at_period:
  assumes "i \<le> period" "period < length close" "0 < period"
    and "pc = None \<longrightarrow> i = 0" and "length out = length close"
  shows "rsi_loop close period i pc gs ls out ! period \<noteq> None"
  using assms
proof (induction close period i pc gs ls out rule: rsi_loop.induct)
  case (1 close period i prevClose gainSum lossSum out)
  from 1(4,5) have lt: "i < length close" by simp
  show ?case
  proof (cases prevClose)
    case None
    with 1(7) have "i = 0" by simp
    with 1(1)[OF lt None] 1(5,6,8) None lt show ?thesis
      by (subst rsi_loop.simps) simp
  next
    case (Some pc)
    show ?thesis
    proof (cases "i = period")
      case True
      with Some lt 1(8) show ?thesis
        by (subst rsi_loop.simps) (simp add: rsi_smooth_below)
    next
      case False
      with 1(4) have "i + 1 \<le> period" by simp
      with 1(2)[OF lt Some 1(4) False] 1(5,6,8) Some lt False 1(4) show ?thesis
        by (subst rsi_loop.simps) simp
    qed
  qed
qed

lemma rsiWilder_emits_at_period:
  "0 < period \<Longrightarrow> period < length close \<Longrightarrow> rsiWilder close period ! period \<noteq> None"
  by (simp add: rsiWilder_def rsi_loop_at_period)

text \<open>
  C6 (as amended). For every close vector and every period, the Wilder RSI kernel returns
  null at every output index \<open>i\<close> with \<open>0 \<le> i < period\<close> (and the output has the
  length of the input). The index \<open>i = period\<close> is left out: there the kernel emits the
  first RSI value (\<open>rsiWilder_emits_at_period\<close>).
\<close>

theorem rsiWilder_null_before_period:
  assumes "i < period" and "i < length close"
  shows "rsiWilder close period ! i = None \<and> length (rsiWilder close period) = length close"
  using assms by (simp add: rsiWilder_def rsi_loop_below)

theorem rsiWilder_null_before_period_witness:
  "rsiWilder [Fin 1, Fin 2, Fin 3] 2 ! 1 = None
   \<and> length (rsiWilder [Fin 1, Fin 2, Fin 3] 2) = length [Fin 1, Fin 2, Fin 3]"
proof -
  have h1: "(1::nat) < 2" by simp
  have h2: "(1::nat) < length [Fin 1, Fin 2, Fin 3]" by simp
  from rsiWilder_null_before_period[OF h1 h2] show ?thesis .
qed

text \<open>C6 as stated fails at \<open>i = period\<close>: with two closes and period 1 the output at
  index 1 is the RSI 100 (one gain, no loss).\<close>

theorem rsiWilder_period_index_counterexample:
  "rsiWilder [Fin 1, Fin 2] 1 ! 1 = Some (Fin 100)"
  by (simp add: rsiWilder_def rsi_loop.simps rsi_smooth.simps rsi_of_def gain_of_def
      loss_of_def num_sub_def num_gt_def num_eq_def)

section \<open>Token bucket: the invariant\<close>

lemma refill_fields [simp]:
  "capacity (refill now b) = capacity b" "refillPerMs (refill now b) = refillPerMs b"
  by (simp_all add: refill_def Let_def)


lemma take_pass_fields [simp]:
  "capacity (snd (take_pass now b)) = capacity b"
  "refillPerMs (snd (take_pass now b)) = refillPerMs b"
  by (simp_all add: take_pass_def Let_def)









section \<open>Back-off\<close>

text \<open>
  C7 (as amended). With no parseable \<open>Retry-After\<close> header (as in every call from the
  retry loop of \<open>getKlines\<close>, which passes \<open>null\<close>), for every attempt number \<open>a\<close> and
  every draw \<open>r\<close> of \<open>Math.random()\<close>, with \<open>u = r / 2\<close>, the sleep is
  \<open>clamp(min(maxMs, baseMs * 2^a) * (0.75 + u), baseMs, maxMs)\<close>: the exponential term
  is capped at \<open>maxMs\<close> before the jitter is applied. It equals the formula of the
  specification whenever \<open>baseMs * 2^a \<le> maxMs\<close>.
\<close>

theorem backoffWaitMs_capped_exponential:
  assumes "header_number e hdr = None" and "u = random e (draws w) * 0.5"
  shows "fst (backoffWaitMs e retry a hdr w)
           = clamp (min (maxMs retry) (baseMs retry * 2 ^ a) * (0.75 + u))
               (baseMs retry) (maxMs retry)
       \<and> (baseMs retry * 2 ^ a \<le> maxMs retry \<longrightarrow>
            fst (backoffWaitMs e retry a hdr w)
              = clamp (baseMs retry * 2 ^ a * (0.75 + u)) (baseMs retry) (maxMs retry))"
proof -
  define ex where "ex = min (maxMs retry) (baseMs retry * 2 ^ a)"
  have "ex * 0.75 + random e (draws w) * ex * 0.5 = ex * (0.75 + u)"
    unfolding assms(2) by (simp add: algebra_simps)
  with assms(1) have m: "fst (backoffWaitMs e retry a hdr w)
      = clamp (ex * (0.75 + u)) (baseMs retry) (maxMs retry)"
    by (simp add: backoffWaitMs_def Let_def ex_def)
  have "ex = baseMs retry * 2 ^ a" if "baseMs retry * 2 ^ a \<le> maxMs retry"
    using that by (simp add: ex_def)
  with m show ?thesis unfolding ex_def by metis
qed

theorem backoffWaitMs_capped_exponential_witness:
  "fst (backoffWaitMs \<lparr>responses = (\<lambda>n. FetchRejected), random = (\<lambda>n. 1 / 2),
          Number_of = (\<lambda>s. None)\<rparr>
        \<lparr>baseMs = 100, maxMs = 1000, maxRetries = 8\<rparr> 2 None
        \<lparr>requests = 0, draws = 0, slept = []\<rparr>) = 400"
proof -
  let ?e = "\<lparr>responses = (\<lambda>n. FetchRejected), random = (\<lambda>n. 1 / 2), Number_of = (\<lambda>s. None)\<rparr>"
  let ?w = "\<lparr>requests = 0, draws = 0, slept = []\<rparr>"
  have h1: "header_number ?e None = None" by (simp add: header_number_def)
  have h2: "(1 / 4 :: real) = random ?e (draws ?w) * 0.5" by simp
  from backoffWaitMs_capped_exponential[OF h1 h2, of "\<lparr>baseMs = 100, maxMs = 1000, maxRetries = 8\<rparr>" 2]
  show ?thesis by (simp add: clamp_def)
qed

text \<open>C7 as stated fails once \<open>baseMs * 2^a\<close> exceeds \<open>maxMs\<close>: with \<open>baseMs = 100\<close>,
  \<open>maxMs = 1000\<close>, attempt 4 and the draw 0 the code sleeps 750 ms, the stated formula
  gives 1000 ms.\<close>

theorem backoffWaitMs_formula_counterexample:
  "fst (backoffWaitMs \<lparr>responses = (\<lambda>n. FetchRejected), random = (\<lambda>n. 0),
          Number_of = (\<lambda>s. None)\<rparr>
        \<lparr>baseMs = 100, maxMs = 1000, maxRetries = 8\<rparr> 4 None
        \<lparr>requests = 0, draws = 0, slept = []\<rparr>) = 750
   \<and> clamp (100 * 2 ^ 4 * (0.75 + 0)) 100 1000 = 1000"
  by (simp add: backoffWaitMs_def header_number_def clamp_def Let_def)

section \<open>getKlines: failed requests are retried\<close>

lemma backoffWaitMs_requests [simp]:
  "requests (snd (backoffWaitMs e retry a hdr w)) = requests w"
  by (simp add: backoffWaitMs_def Let_def split: option.splits)

lemma sleep_requests [simp]: "requests (sleep wait w) = requests w"
  by (simp add: sleep_def)







section \<open>Transactions\<close>

lemma tx_outcome:
  assumes "snapshot d = None"
  shows "tx fn dryRun d =
     (case fn (live d) of
        (Inr result, s') \<Rightarrow> (Inr result, if dryRun = Some True then d else d\<lparr>live := s'\<rparr>)
      | (Inl err, s') \<Rightarrow> (Inl err, d))"
  using assms by (cases d) (simp add: tx_def tx_catch_def split: prod.splits sum.splits)

text \<open>
  C5. For every callback \<open>fn\<close> and flag \<open>dryRun\<close>, on a connection with no transaction
  open, \<open>tx\<close> runs \<open>fn\<close> between \<open>BEGIN IMMEDIATE\<close> and the end of the transaction and:
  when \<open>fn\<close> returns and \<open>dryRun\<close> is not \<open>true\<close> it commits, so the connection holds the
  contents \<open>fn\<close> left, and returns the value of \<open>fn\<close>; when \<open>dryRun\<close> is \<open>true\<close> it rolls
  back and still returns the value; when \<open>fn\<close> throws it rolls back and rethrows. In the
  last two cases the connection is as before the call.
\<close>

theorem tx_commit_or_rollback:
  assumes "snapshot d = None"
  shows "tx fn dryRun d =
     (case fn (live d) of
        (Inr result, s') \<Rightarrow> (Inr result, if dryRun = Some True then d else d\<lparr>live := s'\<rparr>)
      | (Inl err, s') \<Rightarrow> (Inl err, d))"
  using assms by (rule tx_outcome)

theorem tx_commit_or_rollback_witness:
  "tx (\<lambda>s. (Inr (5::int),
         s\<lparr>known_gaps := [\<lparr>kg_series_id = 1, start_open_time = 0, end_open_time = 60000\<rparr>]\<rparr>))
      None (open_db empty_store)
     = (Inr 5, open_db (empty_store
         \<lparr>known_gaps := [\<lparr>kg_series_id = 1, start_open_time = 0, end_open_time = 60000\<rparr>]\<rparr>))
   \<and> tx (\<lambda>s. (Inr (5::int),
         s\<lparr>known_gaps := [\<lparr>kg_series_id = 1, start_open_time = 0, end_open_time = 60000\<rparr>]\<rparr>))
      (Some True) (open_db empty_store)
     = (Inr 5, open_db empty_store)
   \<and> tx (\<lambda>s. (Inl FetchError :: error + int,
         s\<lparr>known_gaps := [\<lparr>kg_series_id = 1, start_open_time = 0, end_open_time = 60000\<rparr>]\<rparr>))
      None (open_db empty_store)
     = (Inl FetchError, open_db empty_store)"
proof -
  have h: "snapshot (open_db empty_store) = None" by (simp add: open_db_def)
  let ?g = "[\<lparr>kg_series_id = 1, start_open_time = 0, end_open_time = 60000\<rparr>]"
  from tx_commit_or_rollback[OF h, of "\<lambda>s. (Inr (5::int), s\<lparr>known_gaps := ?g\<rparr>)" None]
    tx_commit_or_rollback[OF h, of "\<lambda>s. (Inr (5::int), s\<lparr>known_gaps := ?g\<rparr>)" "Some True"]
    tx_commit_or_rollback[OF h, of "\<lambda>s. (Inl FetchError :: error + int, s\<lparr>known_gaps := ?g\<rparr>)" None]
  show ?thesis by (simp add: open_db_def)
qed

section \<open>Ingest loop: cursor advance and termination\<close>

lemma INTERVAL_MS_positive: "INTERVAL_MS iv = Some v \<Longrightarrow> 0 < v"
  by (auto simp: INTERVAL_MS_def split: if_splits)

lemma ema_total: "0 < period \<Longrightarrow> \<exists>out. ema values period alpha = Inr out"
  by (simp add: ema_def Let_def)

lemma macd_total: "\<exists>out. macd close 12 26 9 = Inr out"
  by (simp add: macd_def ema_def Let_def)

lemma computeIndicators_total: "\<exists>ind. computeIndicators rows = Inr ind"
proof -
  obtain m where m: "macd (map ohlcv_close rows) 12 26 9 = Inr m" using macd_total by blast
  show ?thesis by (cases m) (simp add: computeIndicators_def m ema_def Let_def)
qed

lemma filter_indices:
  "map (\<lambda>i. xs ! i) (filter (\<lambda>i. P (xs ! i)) [0..<length xs]) = filter P xs"
proof (induction xs rule: rev_induct)
  case Nil
  then show ?case by simp
next
  case (snoc x xs)
  have "filter (\<lambda>i. P ((xs @ [x]) ! i)) [0..<length xs] = filter (\<lambda>i. P (xs ! i)) [0..<length xs]"
    by (intro filter_cong) (auto simp: nth_append)
  moreover have "map (\<lambda>i. (xs @ [x]) ! i) (filter (\<lambda>i. P (xs ! i)) [0..<length xs])
      = map (\<lambda>i. xs ! i) (filter (\<lambda>i. P (xs ! i)) [0..<length xs])"
    by (intro map_cong) (auto simp: nth_append)
  ultimately show ?case using snoc by simp
qed

lemma candleWrite_filter:
  "map (\<lambda>i. rowsAll ! i) (write_indices rowsAll cursor)
     = filter (\<lambda>row. c_open_time row \<ge> cursor) rowsAll"
  unfolding write_indices_def by (rule filter_indices)

lemma length_write_indices:
  "length (write_indices (mapToRows sid klines) cursor)
     = length (filter (\<lambda>k. openTime k \<ge> cursor) klines)"
proof -
  have "length (write_indices (mapToRows sid klines) cursor)
      = length (map (\<lambda>i. mapToRows sid klines ! i) (write_indices (mapToRows sid klines) cursor))"
    by simp
  also have "\<dots> = length (filter (\<lambda>row. c_open_time row \<ge> cursor) (mapToRows sid klines))"
    by (simp only: candleWrite_filter)
  also have "\<dots> = length (filter (\<lambda>k. openTime k \<ge> cursor) klines)"
    by (simp add: mapToRows_def filter_map comp_def)
  finally show ?thesis .
qed

lemma ingest_chunk_eq:
  assumes "snapshot d = None"
  shows "ingest_chunk gk r n cursor d =
     (case gk n (r_symbol r) (r_interval r)
             (max (r_start r) (cursor - OVERLAP_BARS * r_intervalMs r))
             (min (r_end r) (cursor + r_intervalMs r * (MAX_API_LIMIT - 1))) MAX_API_LIMIT of
        Inl err \<Rightarrow> (Inl err, d)
      | Inr klines \<Rightarrow>
          (Inr (cursor_advance cursor (r_intervalMs r) klines),
           if r_dryRun r then d
           else d\<lparr>live := chunk_write (r_seriesId r) (cursor, klines) (live d)\<rparr>))"
proof (cases "gk n (r_symbol r) (r_interval r)
             (max (r_start r) (cursor - OVERLAP_BARS * r_intervalMs r))
             (min (r_end r) (cursor + r_intervalMs r * (MAX_API_LIMIT - 1))) MAX_API_LIMIT")
  case (Inl err)
  then show ?thesis by (simp add: ingest_chunk_def Let_def)
next
  case (Inr klines)
  obtain ind where ind: "computeIndicators (mapToOHLCV klines) = Inr ind"
    using computeIndicators_total by blast
  show ?thesis
  proof (cases "klines = []")
    case True
    with Inr show ?thesis
      by (simp add: ingest_chunk_def Let_def cursor_advance_def chunk_write_def
          chunk_candles_def write_indices_def mapToRows_def)
  next
    case False
    let ?wi = "write_indices (mapToRows (r_seriesId r) klines) cursor"
    have len: "length ?wi = length (filter (\<lambda>k. openTime k \<ge> cursor) klines)"
      by (rule length_write_indices)
    show ?thesis
    proof (cases "?wi = []")
      case True
      with len have "filter (\<lambda>k. openTime k \<ge> cursor) klines = []" by simp
      with True False Inr ind show ?thesis
        by (simp add: ingest_chunk_def Let_def tx_outcome[OF assms] cursor_advance_def
            chunk_write_def chunk_candles_def chunk_indicators_def)
    next
      case nonempty: False
      with len have "filter (\<lambda>k. openTime k \<ge> cursor) klines \<noteq> []" by auto
      with nonempty False Inr ind len show ?thesis
        by (simp add: ingest_chunk_def Let_def tx_outcome[OF assms] cursor_advance_def
            chunk_write_def chunk_candles_def chunk_indicators_def)
    qed
  qed
qed

lemma ingest_chunk_snapshot:
  "snapshot d = None \<Longrightarrow> snapshot (snd (ingest_chunk gk r n cursor d)) = None"
  by (simp add: ingest_chunk_eq split: sum.splits)

lemma ingest_loop_trace:
  "snapshot d = None \<Longrightarrow>
   ingest_loop fuel gk r n cursor d =
     map_option (\<lambda>(res, tr). (res, if r_dryRun r then d
                                  else d\<lparr>live := fold (chunk_write (r_seriesId r)) tr (live d)\<rparr>))
       (loop_trace fuel gk r n cursor)"
proof (induction fuel arbitrary: n cursor d)
  case 0
  then show ?case by simp
next
  case (Suc fuel)
  show ?case
  proof (cases "cursor \<le> r_end r")
    case False
    then show ?thesis by simp
  next
    case True
    show ?thesis
    proof (cases "gk n (r_symbol r) (r_interval r)
             (max (r_start r) (cursor - OVERLAP_BARS * r_intervalMs r))
             (min (r_end r) (cursor + r_intervalMs r * (MAX_API_LIMIT - 1))) MAX_API_LIMIT")
      case (Inl err)
      with True Suc.prems show ?thesis by (simp add: ingest_chunk_eq)
    next
      case (Inr klines)
      let ?d' = "if r_dryRun r then d
           else d\<lparr>live := chunk_write (r_seriesId r) (cursor, klines) (live d)\<rparr>"
      have s': "snapshot ?d' = None" using Suc.prems by simp
      from True Inr Suc.prems Suc.IH[OF s'] show ?thesis
        by (simp add: ingest_chunk_eq option.map_comp comp_def case_prod_beta)
    qed
  qed
qed

lemma cursor_advance_ge:
  assumes "0 < intervalMs"
  shows "cursor + intervalMs \<le> cursor_advance cursor intervalMs klines"
proof (cases "length (filter (\<lambda>k. openTime k \<ge> cursor) klines) = 0")
  case True
  then show ?thesis by (simp add: cursor_advance_def)
next
  case False
  then have "0 < length (filter (\<lambda>k. openTime k \<ge> cursor) klines)" by (simp only: neq0_conv)
  then have "1 \<le> int (length (filter (\<lambda>k. openTime k \<ge> cursor) klines))" by linarith
  with assms have "1 * intervalMs \<le> int (length (filter (\<lambda>k. openTime k \<ge> cursor) klines)) * intervalMs"
    by (intro mult_right_mono) simp_all
  with False show ?thesis by (simp add: cursor_advance_def Let_def)
qed

lemma loop_trace_terminates:
  "0 < r_intervalMs r \<Longrightarrow> nat (r_end r + 1 - cursor) < fuel \<Longrightarrow>
   loop_trace fuel gk r n cursor \<noteq> None"
proof (induction fuel arbitrary: n cursor)
  case 0
  then show ?case by simp
next
  case (Suc fuel)
  show ?case
  proof (cases "cursor \<le> r_end r")
    case False
    then show ?thesis by simp
  next
    case True
    show ?thesis
    proof (cases "gk n (r_symbol r) (r_interval r)
             (max (r_start r) (cursor - OVERLAP_BARS * r_intervalMs r))
             (min (r_end r) (cursor + r_intervalMs r * (MAX_API_LIMIT - 1))) MAX_API_LIMIT")
      case (Inl err)
      with True show ?thesis by simp
    next
      case (Inr klines)
      from cursor_advance_ge[OF Suc.prems(1), of cursor klines] Suc.prems(1)
      have "cursor < cursor_advance cursor (r_intervalMs r) klines" by simp
      with True Suc.prems(2)
      have "nat (r_end r + 1 - cursor_advance cursor (r_intervalMs r) klines) < fuel" by simp
      from Suc.IH[OF Suc.prems(1) this] True Inr show ?thesis by simp
    qed
  qed
qed

lemma ingest_loop_terminates:
  assumes "0 < r_intervalMs r" and "snapshot d = None" and "nat (r_end r + 1 - cursor) < fuel"
  shows "ingest_loop fuel gk r n cursor d \<noteq> None"
  using loop_trace_terminates[OF assms(1,3)] by (simp add: ingest_loop_trace[OF assms(2)])

lemma bootstrapSeries_returns:
  "\<exists>fuel. bootstrapSeries fuel gk now startDate sy iv dryRun s \<noteq> None"
proof (cases "ensure_meta sy iv s")
  case (Pair res s1)
  show ?thesis
  proof (cases res)
    case (Inl err)
    with Pair show ?thesis by (simp add: bootstrapSeries_def)
  next
    case (Inr ids)
    obtain seriesId intervalMs where ids: "ids = (seriesId, intervalMs)" by (cases ids)
    from Pair Inr ids have "INTERVAL_MS iv = Some intervalMs"
      by (auto simp: ensure_meta_def split: prod.splits option.splits)
    then have pos: "0 < intervalMs" by (rule INTERVAL_MS_positive)
    then obtain fl where fl: "floorToInterval now intervalMs = Inr fl"
      by (simp add: floorToInterval_def)
    show ?thesis
    proof (cases startDate)
      case None
      with Pair Inr ids fl show ?thesis by (simp add: bootstrapSeries_def)
    next
      case (Some start)
      let ?r = "\<lparr>r_symbol = sy, r_interval = iv, r_seriesId = seriesId,
                 r_intervalMs = intervalMs, r_start = start, r_end = fl - 1, r_dryRun = dryRun\<rparr>"
      have "ingest_loop (nat (r_end ?r + 1 - start) + 1) gk ?r 0 start (open_db s1) \<noteq> None"
        using pos by (intro ingest_loop_terminates) (simp_all add: open_db_def)
      with Pair Inr ids fl Some show ?thesis
        by (intro exI[of _ "nat (r_end ?r + 1 - start) + 1"]) (simp add: bootstrapSeries_def)
    qed
  qed
qed

text \<open>
  C9. In the bootstrap loop (the interval has one of the durations of \<open>INTERVAL_MS\<close>, all
  positive, and \<open>endClosed\<close> is fixed in \<open>r_end\<close>), a pass whose fetch returns klines moves
  the cursor by \<open>ms\<close> when no fetched bar is at or after the cursor (also when the fetch is
  empty) and by the number of bars written times \<open>ms\<close> otherwise, in every case by at
  least \<open>ms\<close>; a pass whose fetch throws ends the loop. So the loop ends within
  \<open>endClosed + 1 - cursor\<close> passes, and \<open>bootstrapSeries\<close> returns.
\<close>

theorem bootstrap_loop_terminates:
  assumes "INTERVAL_MS (r_interval r) = Some (r_intervalMs r)" and "snapshot d = None"
  shows "(case gk n (r_symbol r) (r_interval r)
             (max (r_start r) (cursor - OVERLAP_BARS * r_intervalMs r))
             (min (r_end r) (cursor + r_intervalMs r * (MAX_API_LIMIT - 1))) MAX_API_LIMIT of
            Inl err \<Rightarrow> fst (ingest_chunk gk r n cursor d) = Inl err
          | Inr klines \<Rightarrow>
              fst (ingest_chunk gk r n cursor d) = Inr (cursor_advance cursor (r_intervalMs r) klines)
              \<and> cursor + r_intervalMs r \<le> cursor_advance cursor (r_intervalMs r) klines)
       \<and> ingest_loop (nat (r_end r + 1 - cursor) + 1) gk r n cursor d \<noteq> None
       \<and> (\<exists>fuel. bootstrapSeries fuel gk now startDate sy (r_interval r) dryRun s \<noteq> None)"
proof -
  from assms(1) have pos: "0 < r_intervalMs r" by (rule INTERVAL_MS_positive)
  have "ingest_loop (nat (r_end r + 1 - cursor) + 1) gk r n cursor d \<noteq> None"
    using pos assms(2) by (intro ingest_loop_terminates) simp_all
  with cursor_advance_ge[OF pos, of cursor] bootstrapSeries_returns show ?thesis
    by (simp add: ingest_chunk_eq[OF assms(2)] split: sum.splits)
qed

theorem bootstrap_loop_terminates_witness:
  "fst (ingest_chunk (exchange [bar 0 1, bar 60000 2])
          \<lparr>r_symbol = ''BTCUSDT'', r_interval = ''1m'', r_seriesId = 1, r_intervalMs = 60000,
           r_start = 0, r_end = 179999, r_dryRun = False\<rparr> 0 0 (open_db empty_store))
     = Inr 120000
   \<and> ingest_loop 180001 (exchange [bar 0 1, bar 60000 2])
          \<lparr>r_symbol = ''BTCUSDT'', r_interval = ''1m'', r_seriesId = 1, r_intervalMs = 60000,
           r_start = 0, r_end = 179999, r_dryRun = False\<rparr> 0 0 (open_db empty_store) \<noteq> None"
proof -
  let ?r = "\<lparr>r_symbol = ''BTCUSDT'', r_interval = ''1m'', r_seriesId = 1, r_intervalMs = 60000,
           r_start = 0, r_end = 179999, r_dryRun = False\<rparr>"
  have h1: "INTERVAL_MS (r_interval ?r) = Some (r_intervalMs ?r)" by (simp add: INTERVAL_MS_def)
  have h2: "snapshot (open_db empty_store) = None" by (simp add: open_db_def)
  from bootstrap_loop_terminates[OF h1 h2, of "exchange [bar 0 1, bar 60000 2]" 0 0]
  show ?thesis
    by (simp add: exchange_def bar_def cursor_advance_def MAX_API_LIMIT_def OVERLAP_BARS_def)
qed

section \<open>Runs in terms of their chunks\<close>

lemma loop_trace_unfold:
  "loop_trace fuel gk r n cursor =
     (if fuel = 0 then None
      else if cursor \<le> r_end r then
        (case gk n (r_symbol r) (r_interval r)
                (max (r_start r) (cursor - OVERLAP_BARS * r_intervalMs r))
                (min (r_end r) (cursor + r_intervalMs r * (MAX_API_LIMIT - 1))) MAX_API_LIMIT of
           Inl err \<Rightarrow> Some (Inl err, [])
         | Inr klines \<Rightarrow>
             map_option (\<lambda>(res, tr). (res, (cursor, klines) # tr))
               (loop_trace (fuel - 1) gk r (n + 1) (cursor_advance cursor (r_intervalMs r) klines)))
      else Some (Inr (), []))"
  by (cases fuel) (simp_all cong: sum.case_cong)

lemma ensure_meta_interval:
  "ensure_meta sy iv s = (Inr (seriesId, intervalMs), s1) \<Longrightarrow> INTERVAL_MS iv = Some intervalMs"
  by (auto simp: ensure_meta_def split: prod.splits option.splits)

lemma bootstrapSeries_trace:
  assumes "ensure_meta sy iv s = (Inr (seriesId, intervalMs), s1)"
  shows "bootstrapSeries fuel gk now (Some start) sy iv dryRun s =
     map_option (\<lambda>(res, tr). (res, if dryRun then s1 else fold (chunk_write seriesId) tr s1))
       (loop_trace fuel gk
          \<lparr>r_symbol = sy, r_interval = iv, r_seriesId = seriesId, r_intervalMs = intervalMs,
           r_start = start, r_end = (now div intervalMs) * intervalMs - 1, r_dryRun = dryRun\<rparr>
          0 start)"
proof -
  from ensure_meta_interval[OF assms] have "0 < intervalMs" by (rule INTERVAL_MS_positive)
  then have fl: "floorToInterval now intervalMs = Inr ((now div intervalMs) * intervalMs)"
    by (simp add: floorToInterval_def)
  have sn: "snapshot \<lparr>live = s1, snapshot = None\<rparr> = None" by simp
  show ?thesis
    by (cases dryRun)
       (simp_all add: bootstrapSeries_def assms fl ingest_loop_trace[OF sn] option.map_comp
          comp_def split_def open_db_def)
qed

lemma updateSeries_trace:
  assumes "ensure_meta sy iv s = (Inr (seriesId, intervalMs), s1)"
    and "start = update_start sd intervalMs (getMaxOpenTime seriesId s1)"
  shows "updateSeries fuel gk now (Some sd) sy iv dryRun s =
     map_option (\<lambda>(res, tr). (res, if dryRun then s1 else fold (chunk_write seriesId) tr s1))
       (loop_trace fuel gk
          \<lparr>r_symbol = sy, r_interval = iv, r_seriesId = seriesId, r_intervalMs = intervalMs,
           r_start = start, r_end = (now div intervalMs) * intervalMs - 1, r_dryRun = dryRun\<rparr>
          0 start)"
proof -
  from ensure_meta_interval[OF assms(1)] have "0 < intervalMs" by (rule INTERVAL_MS_positive)
  then have fl: "floorToInterval now intervalMs = Inr ((now div intervalMs) * intervalMs)"
    by (simp add: floorToInterval_def)
  have sn: "snapshot \<lparr>live = s1, snapshot = None\<rparr> = None" by simp
  show ?thesis
    by (cases dryRun)
       (simp_all add: updateSeries_def assms fl ingest_loop_trace[OF sn] option.map_comp
          comp_def split_def open_db_def Let_def)
qed

lemma ensure_meta_empty:
  "ensure_meta ''BTCUSDT'' ''1m'' empty_store =
     (Inr (1, 60000),
      empty_store\<lparr>symbols := [\<lparr>sym_id = 1, symbol = ''BTCUSDT'', base_asset = ''BTC'',
                                quote_asset = ''USDT''\<rparr>],
                  intervals := [\<lparr>int_id = 1, code = ''1m'', interval_ms = 60000\<rparr>],
                  series := [\<lparr>ser_id = 1, symbol_id = 1, interval_id = 1\<rparr>]\<rparr>)"
  by (simp add: ensure_meta_def ensureSymbol_def ensureInterval_def ensureSeries_def
      empty_store_def next_id_def strip_USDT_def INTERVAL_MS_def suffix_def Let_def)

text \<open>
  C3. The metadata upserts of \<open>bootstrapSeries\<close> run outside every transaction, so a
  dry-run bootstrap on an empty store does not leave it empty: after the run, which
  rolls back the one chunk it fetches, the tables \<open>symbols\<close>, \<open>intervals\<close> and \<open>series\<close>
  hold one row each (candles, indicators, series_state and known_gaps are empty).
\<close>

theorem bootstrap_dry_run_leaves_metadata:
  "bootstrapSeries 3 (exchange [bar 0 1, bar 60000 2]) 120000 (Some 0) ''BTCUSDT'' ''1m'' True
     empty_store
   = Some (Inr (),
       \<lparr>symbols = [\<lparr>sym_id = 1, symbol = ''BTCUSDT'', base_asset = ''BTC'',
                    quote_asset = ''USDT''\<rparr>],
        intervals = [\<lparr>int_id = 1, code = ''1m'', interval_ms = 60000\<rparr>],
        series = [\<lparr>ser_id = 1, symbol_id = 1, interval_id = 1\<rparr>],
        candles = [], indicators = [], series_state = [], known_gaps = []\<rparr>)"
  unfolding bootstrapSeries_trace[OF ensure_meta_empty]
  by (simp add: loop_trace_unfold exchange_def bar_def cursor_advance_def MAX_API_LIMIT_def
      OVERLAP_BARS_def empty_store_def)

end
